theory Spec2Isabelle
  imports Main
begin

section \<open>JavaScript values and helpers\<close>

text \<open>
  Strings are byte strings, a Buffer is a list of bytes.  Dynamically typed payloads
  (decoded chunks, decoded bodies, parsed bodies, empty responses) are values of
  \<open>jsvalue\<close>; a number is an integer or \<open>Infinity\<close>, which is all the code under study
  ever inspects.
\<close>

type_synonym buffer = "char list"

datatype jsnumber = Num int | Infinity

datatype jsvalue =
    JUndefined
  | JNull
  | JBool bool
  | JNumber jsnumber
  | JString string
  | JArray "jsvalue list"
  | JObject "(string \<times> jsvalue) list"
  | JBuffer buffer

text \<open>A thrown JavaScript error: its message and the optional \<open>status\<close> and \<open>type\<close>
  properties that the body parser reads from it.\<close>

record js_error =
  message :: string
  status :: "nat option"
  etype :: "string option"

definition new_Error :: "string \<Rightarrow> js_error" where
  "new_Error msg = \<lparr>message = msg, status = None, etype = None\<rparr>"

text \<open>\<open>String.prototype.toLowerCase\<close>, on the ASCII letters.\<close>

definition lower_char :: "char \<Rightarrow> char" where
  "lower_char c =
     (let n = (of_char c :: nat) in if 65 \<le> n \<and> n \<le> 90 then char_of (n + 32) else c)"

definition toLowerCase :: "string \<Rightarrow> string" where
  "toLowerCase s = map lower_char s"

text \<open>\<open>String.prototype.split\<close> with a one-character separator.\<close>

fun split :: "char \<Rightarrow> string \<Rightarrow> string list" where
  "split sep [] = [[]]"
| "split sep (c # cs) =
     (if c = sep then [] # split sep cs
      else (case split sep cs of
              [] \<Rightarrow> [[c]]
            | p # ps \<Rightarrow> (c # p) # ps))"

text \<open>\<open>Array.prototype.join\<close>.\<close>

fun join :: "string \<Rightarrow> string list \<Rightarrow> string" where
  "join sep [] = []"
| "join sep [x] = x"
| "join sep (x # y # ys) = x @ sep @ join sep (y # ys)"

text \<open>\<open>[...new Set(xs)]\<close>: the elements in the order of their first occurrence.\<close>

fun unique :: "'a list \<Rightarrow> 'a list" where
  "unique [] = []"
| "unique (x # xs) = x # unique (filter (\<lambda>y. y \<noteq> x) xs)"

text \<open>Reading index \<open>i\<close> of an array: \<open>undefined\<close> (here \<open>None\<close>) out of range.\<close>

definition at :: "'a list \<Rightarrow> nat \<Rightarrow> 'a option" where
  "at xs i = (if i < length xs then Some (xs ! i) else None)"

section \<open>Media types (mediaTypes.ts)\<close>

type_synonym MediaType = "string list"

text \<open>A template component is \<open>None\<close> for \<open>null\<close> (written \<open>*\<close>), else the literal.\<close>

type_synonym MediaTypeTemplate = "string option \<times> string option"

datatype MediaTypeIdentifier =
    IdString string
  | IdFunction "MediaType \<Rightarrow> bool"

datatype MediaTypeMatcher =
    Template MediaTypeTemplate
  | Function "MediaType \<Rightarrow> bool"

definition getMediaTypeIdentifier :: "string \<Rightarrow> js_error + MediaTypeTemplate" where
  "getMediaTypeIdentifier mediaTypeIdentifier =
     (let mediaTypeMatcher =
            map (\<lambda>part. if part = ''*'' then None else Some part)
                (split CHR ''/'' mediaTypeIdentifier)
      in case mediaTypeMatcher of
           [a, b] \<Rightarrow> Inr (a, b)
         | _ \<Rightarrow> Inl (new_Error (''Media type identifier '' @ [CHR 0x27] @ mediaTypeIdentifier
                                  @ [CHR 0x27] @ '' is invalid.'')))"

text \<open>Running a list of fallible computations in order, stopping at the first throw.\<close>

fun sequence :: "('e + 'a) list \<Rightarrow> 'e + 'a list" where
  "sequence [] = Inr []"
| "sequence (x # xs) =
     (case x of
        Inl e \<Rightarrow> Inl e
      | Inr v \<Rightarrow> (case sequence xs of Inl e \<Rightarrow> Inl e | Inr vs \<Rightarrow> Inr (v # vs)))"

definition getMediaTypeMatchers :: "MediaTypeIdentifier list \<Rightarrow> js_error + MediaTypeMatcher list" where
  "getMediaTypeMatchers mediaTypeIdentifiers =
     sequence (map (\<lambda>identifier.
                 case identifier of
                   IdString s \<Rightarrow> map_sum id Template (getMediaTypeIdentifier s)
                 | IdFunction f \<Rightarrow> Inr (Function f)) mediaTypeIdentifiers)"

text \<open>\<open>!x\<close> for a template component: true for \<open>null\<close> and for the empty string.\<close>

definition falsy_component :: "string option \<Rightarrow> bool" where
  "falsy_component c = (c = None \<or> c = Some [])"

definition matchType :: "MediaTypeTemplate \<Rightarrow> MediaType \<Rightarrow> bool" where
  "matchType mediaTypeTemplate mediaType =
     ((falsy_component (fst mediaTypeTemplate) \<or> fst mediaTypeTemplate = at mediaType 0)
      \<and> (falsy_component (snd mediaTypeTemplate) \<or> snd mediaTypeTemplate = at mediaType 1))"

definition matchAnyType :: "MediaTypeMatcher list \<Rightarrow> MediaType \<Rightarrow> bool" where
  "matchAnyType mediaTypeMatchers mediaType =
     list_ex (\<lambda>mediaTypeMatcher.
        case mediaTypeMatcher of
          Template t \<Rightarrow> matchType t mediaType
        | Function f \<Rightarrow> f mediaType) mediaTypeMatchers"

section \<open>Parts outside the repository\<close>

text \<open>
  The npm packages and platform functions the code calls are parameters of the model:
  \<open>bytes\<close> applied to a string (a byte count, or \<open>null\<close>), \<open>JSON.parse\<close>,
  \<open>JSON.stringify\<close>, \<open>querystring.parse\<close> with its \<open>maxKeys\<close> option, \<open>parseInt\<close>
  (\<open>None\<close> is \<open>NaN\<close>) and \<open>contentType.parse\<close>, which receives the \<open>content-type\<close>
  header of the request.
\<close>

record ParsedMediaType =
  mtype :: string
  parameters :: "string \<rightharpoonup> string"

record externals =
  bytes :: "string \<Rightarrow> int option"
  JSON_parse :: "jsvalue \<Rightarrow> js_error + jsvalue"
  JSON_stringify :: "jsvalue \<Rightarrow> jsvalue"
  querystring_parse :: "jsvalue \<Rightarrow> nat \<Rightarrow> jsvalue"
  parseInt :: "string \<Rightarrow> int option"
  contentType_parse :: "string option \<Rightarrow> js_error + ParsedMediaType"

section \<open>Buffer encodings and parser configurations (bufferEncoding.ts)\<close>

text \<open>A buffer encoder.  A chunked encoder is an object with internal state of type
  \<open>'d\<close>: \<open>onData\<close> and \<open>onEnd\<close> return the decoded piece and the new state.\<close>

datatype 'd BufferEncoder =
    ChunkedBufferEncoder
      (onData: "'d \<Rightarrow> buffer \<Rightarrow> jsvalue \<times> 'd")
      (onEnd: "'d \<Rightarrow> jsvalue \<times> 'd")
      (reduce: "jsvalue list \<Rightarrow> jsvalue")
      (encoder_encodings: "string list")
      (decoder_state: 'd)
  | UnchunkedBufferEncoder
      (transform: "buffer \<Rightarrow> jsvalue")
      (encoder_encodings: "string list")

text \<open>The resolved \<open>encodings\<close> of a parser: \<open>true\<close> or a list of names.\<close>

datatype encodings_setting = EncodingsTrue | EncodingsList "string list"

text \<open>Truthiness of an optional string: \<open>undefined\<close>, \<open>false\<close> and the empty string
  are falsy.\<close>

definition truthy :: "string option \<Rightarrow> bool" where
  "truthy s = (case s of None \<Rightarrow> False | Some v \<Rightarrow> v \<noteq> [])"

definition matchCharsetEncoding ::
  "encodings_setting option \<Rightarrow> string option \<Rightarrow> string list \<Rightarrow> string option \<Rightarrow> bool" where
  "matchCharsetEncoding charsetEncodings charset availableBufferEncodingNames defaultEncoding =
     (let defaultCharset = (if truthy charset then charset else defaultEncoding) in
      case (charsetEncodings, if truthy defaultCharset then defaultCharset else None) of
        (None, None) \<Rightarrow> True
      | (None, Some _) \<Rightarrow> False
      | (Some _, None) \<Rightarrow> False
      | (Some EncodingsTrue, Some c) \<Rightarrow> c \<in> set availableBufferEncodingNames
      | (Some (EncodingsList names), Some c) \<Rightarrow> c \<in> set names)"

subsection \<open>getEncodingVariations\<close>

type_synonym EncodingVariations = "string \<rightharpoonup> string list"


definition builtinEncodingVariations :: EncodingVariations where
  "builtinEncodingVariations =
     [''utf8'' \<mapsto> [''utf-8'', ''utf8''],
      ''utf-8'' \<mapsto> [''utf-8'', ''utf8''],
      ''ucs2'' \<mapsto> [''ucs-2'', ''ucs2''],
      ''ucs-2'' \<mapsto> [''ucs-2'', ''ucs2'']]"







subsection \<open>normalizeEncodings and getEncodings\<close>

definition normalizeEncodings :: "string list \<Rightarrow> EncodingVariations \<Rightarrow> string list" where
  "normalizeEncodings encs ev =
     (let normalizedEncodings = map toLowerCase encs in
      unique (concat (map (\<lambda>encoding.
                 case ev encoding of Some variations \<Rightarrow> variations | None \<Rightarrow> [encoding])
               normalizedEncodings)))"

text \<open>The \<open>encodings\<close> field as a configuration gives it.\<close>

datatype encodings_option =
    EncUndefined
  | EncNull
  | EncBool bool
  | EncString string
  | EncList "string list"

datatype limit_option = LimitString string | LimitNumber jsnumber

datatype inflate_option = InflateTrue | InflateString string | InflateList "string list"

datatype inflate_setting = InflateAll | InflateNames "string list"

datatype matcher_option = MatcherOne MediaTypeIdentifier | MatcherMany "MediaTypeIdentifier list"

type_synonym parser_function = "jsvalue \<Rightarrow> js_error + jsvalue"

datatype parser_option = ParserUndefined | ParserNull | ParserFunction parser_function

text \<open>A request: its headers, when it has any, and its method.\<close>

record Request =
  req_headers :: "(string \<rightharpoonup> string) option"
  req_method :: string

text \<open>The verify function sees the request, the raw body, the parsed body and the
  encoding (\<open>None\<close> is \<open>false\<close>); it returns the error it throws, if any.  The response
  object is opaque and left out.\<close>

type_synonym verify_function = "Request \<Rightarrow> jsvalue \<Rightarrow> jsvalue \<Rightarrow> string option \<Rightarrow> js_error option"

text \<open>A configuration object.  \<open>None\<close> is an absent key; \<open>emptyResponse\<close> may also be
  present with the value \<open>undefined\<close> or \<open>null\<close>.\<close>

record ParserConfiguration =
  cfg_inflate :: "inflate_option option"
  cfg_limit :: "limit_option option"
  cfg_requireContentLength :: "bool option"
  cfg_parser :: parser_option
  cfg_matcher :: matcher_option
  cfg_encodings :: encodings_option
  cfg_defaultEncoding :: "string option"
  cfg_emptyResponse :: "jsvalue option"
  cfg_verify :: "verify_function option"

record PatchedParser =
  inflate :: inflate_setting
  limit :: "jsnumber option"
  requireContentLength :: bool
  encodings :: "encodings_setting option"
  defaultEncoding :: "string option"
  emptyResponse :: "jsvalue option"
  parser :: "parser_function option"
  matcher :: "MediaTypeMatcher list"
  verify :: "verify_function option"

text \<open>\<open>!parser.encodings\<close>.\<close>

definition encodings_falsy :: "encodings_option \<Rightarrow> bool" where
  "encodings_falsy e =
     (case e of
        EncUndefined \<Rightarrow> True
      | EncNull \<Rightarrow> True
      | EncBool b \<Rightarrow> \<not> b
      | EncString s \<Rightarrow> s = []
      | EncList _ \<Rightarrow> False)"

definition getEncodings ::
  "ParserConfiguration \<Rightarrow> EncodingVariations \<Rightarrow> string option
     \<Rightarrow> js_error + (string option \<times> encodings_setting option)" where
  "getEncodings p ev defaultMediaTypeDefaultEncoding =
     (let defaultEncoding' = (if truthy (cfg_defaultEncoding p) then cfg_defaultEncoding p else None) in
      if cfg_encodings p = EncBool True then Inr (defaultEncoding', Some EncodingsTrue)
      else if encodings_falsy (cfg_encodings p) then
        (case (defaultEncoding', truthy defaultMediaTypeDefaultEncoding) of
           (Some d, False) \<Rightarrow>
             (if cfg_encodings p = EncBool False \<or> cfg_encodings p = EncNull
              then Inl (new_Error ''Parser Configuration Error: When defaultEncoding is set, encoding can not be false or null.'')
              else Inr (defaultEncoding',
                        Some (EncodingsList (normalizeEncodings [d] ev))))
         | _ \<Rightarrow>
             (if truthy defaultMediaTypeDefaultEncoding \<and> cfg_encodings p = EncUndefined
              then Inr (defaultMediaTypeDefaultEncoding, Some EncodingsTrue)
              else Inr (None, None)))
      else
        Inr (defaultEncoding',
             Some (EncodingsList (normalizeEncodings
               (unique ((case defaultEncoding' of Some d \<Rightarrow> [d] | None \<Rightarrow> [])
                        @ (case cfg_encodings p of
                             EncList l \<Rightarrow> l
                           | EncString s \<Rightarrow> [s]
                           | _ \<Rightarrow> [])))
               ev))))"

definition getInflate :: "inflate_option \<Rightarrow> inflate_setting" where
  "getInflate i =
     (case i of
        InflateString s \<Rightarrow> InflateNames [s]
      | InflateList l \<Rightarrow> InflateNames l
      | InflateTrue \<Rightarrow> InflateAll)"

subsection \<open>The default media type parsers\<close>

text \<open>The characters of a payload that is a string or a buffer.\<close>

definition payload_chars :: "jsvalue \<Rightarrow> string option" where
  "payload_chars v = (case v of JString s \<Rightarrow> Some s | JBuffer b \<Rightarrow> Some b | _ \<Rightarrow> None)"

text \<open>The loop of \<open>parameterCount\<close>: every \<open>&\<close> found increments the count, and the
  function gives up (\<open>undefined\<close>, here \<open>None\<close>) when the count reaches the limit.\<close>

fun parameterCount_from :: "nat \<Rightarrow> string \<Rightarrow> nat \<Rightarrow> nat option" where
  "parameterCount_from count [] lim = Some count"
| "parameterCount_from count (c # cs) lim =
     (if c = CHR ''&''
      then (if Suc count = lim then None else parameterCount_from (Suc count) cs lim)
      else parameterCount_from count cs lim)"

definition parameterCount :: "string \<Rightarrow> nat \<Rightarrow> nat option" where
  "parameterCount body lim = parameterCount_from 0 body lim"

text \<open>The function that \<open>getQuerystringParser(maxKeys)\<close> returns, for a finite
  \<open>maxKeys\<close>.\<close>

definition querystringParser :: "externals \<Rightarrow> nat \<Rightarrow> parser_function" where
  "querystringParser X maxKeys payload =
     (case payload_chars payload of
        None \<Rightarrow> Inl (new_Error ''body.indexOf is not a function'')
      | Some body \<Rightarrow>
          (case parameterCount body maxKeys of
             Some _ \<Rightarrow> Inr (querystring_parse X payload maxKeys)
           | None \<Rightarrow> Inl \<lparr>message = ''too many parameters'', status = Some 413,
                           etype = Some ''parameters.too.many''\<rparr>))"

definition getQuerystringParser :: "externals \<Rightarrow> jsnumber \<Rightarrow> js_error + parser_function" where
  "getQuerystringParser X maxKeys =
     (case maxKeys of
        Infinity \<Rightarrow> Inr (querystringParser X 0)
      | Num n \<Rightarrow> if n < 0 then Inl (new_Error ''maxKeys can not be smaller than 0'')
                  else Inr (querystringParser X (nat n)))"

text \<open>\<open>typeof raw === 'object'\<close> and \<open>Array.isArray(raw)\<close>.\<close>

definition typeof_object :: "jsvalue \<Rightarrow> bool" where
  "typeof_object v =
     (case v of JNull \<Rightarrow> True | JArray _ \<Rightarrow> True | JObject _ \<Rightarrow> True | JBuffer _ \<Rightarrow> True
              | _ \<Rightarrow> False)"

definition isArray :: "jsvalue \<Rightarrow> bool" where
  "isArray v = (case v of JArray _ \<Rightarrow> True | _ \<Rightarrow> False)"

text \<open>\<open>raw.__proto__\<close>: an own property of that name when the object has one, else the
  prototype, which has no enumerable key of its own; a \<open>TypeError\<close> on \<open>null\<close> and
  \<open>undefined\<close>.\<close>

definition get_proto :: "jsvalue \<Rightarrow> js_error + jsvalue" where
  "get_proto raw =
     (case raw of
        JNull \<Rightarrow> Inl (new_Error ''Cannot read properties of null'')
      | JUndefined \<Rightarrow> Inl (new_Error ''Cannot read properties of undefined'')
      | JObject kvs \<Rightarrow>
          (case map_of kvs ''__proto__'' of Some v \<Rightarrow> Inr v | None \<Rightarrow> Inr (JObject []))
      | _ \<Rightarrow> Inr (JObject []))"

text \<open>\<open>Object.keys(v).length\<close>.\<close>

definition Object_keys_length :: "jsvalue \<Rightarrow> js_error + nat" where
  "Object_keys_length v =
     (case v of
        JNull \<Rightarrow> Inl (new_Error ''Cannot convert undefined or null to object'')
      | JUndefined \<Rightarrow> Inl (new_Error ''Cannot convert undefined or null to object'')
      | JBool _ \<Rightarrow> Inr 0
      | JNumber _ \<Rightarrow> Inr 0
      | JString s \<Rightarrow> Inr (length s)
      | JArray xs \<Rightarrow> Inr (length xs)
      | JObject kvs \<Rightarrow> Inr (length kvs)
      | JBuffer b \<Rightarrow> Inr (length b))"

definition jsonParser :: "externals \<Rightarrow> parser_function" where
  "jsonParser X payload =
     (case JSON_parse X payload of
        Inl e \<Rightarrow> Inl e
      | Inr raw \<Rightarrow>
          if typeof_object raw \<and> \<not> isArray raw
          then (case get_proto raw of
                  Inl e \<Rightarrow> Inl e
                | Inr proto \<Rightarrow>
                    (case Object_keys_length proto of
                       Inl e \<Rightarrow> Inl e
                     | Inr n \<Rightarrow>
                         if n > 0
                         then Inl (new_Error ''__proto__ key not allowed in JSON body on main level'')
                         else Inr raw))
          else Inr raw)"

record DefaultParser =
  dp_parser :: "parser_function option"
  dp_defaultEncoding :: "string option"
  dp_emptyResponse :: "jsvalue option"

definition defaultMediaTypeParsers :: "externals \<Rightarrow> string \<rightharpoonup> DefaultParser" where
  "defaultMediaTypeParsers X =
     [''application/x-www-form-urlencoded'' \<mapsto>
        \<lparr>dp_parser = Some (querystringParser X 1000), dp_defaultEncoding = Some ''utf-8'',
         dp_emptyResponse = Some (JObject [])\<rparr>,
      ''application/json'' \<mapsto>
        \<lparr>dp_parser = Some (jsonParser X), dp_defaultEncoding = Some ''utf-8'',
         dp_emptyResponse = Some (JObject [])\<rparr>,
      ''text/plain'' \<mapsto>
        \<lparr>dp_parser = None, dp_defaultEncoding = Some ''utf-8'',
         dp_emptyResponse = Some (JString [])\<rparr>,
      ''application/octet-stream'' \<mapsto>
        \<lparr>dp_parser = None, dp_defaultEncoding = None,
         dp_emptyResponse = Some (JBuffer [])\<rparr>]"

subsection \<open>joinParserConfigurations\<close>

datatype config_entry = DefaultName string | Config ParserConfiguration

datatype ParserConfigurations = Single config_entry | Multiple "config_entry list"

text \<open>\<open>typeof l === 'string' ? bytes(l) : l\<close>.\<close>

definition convertLimit :: "externals \<Rightarrow> limit_option \<Rightarrow> jsnumber option" where
  "convertLimit X l =
     (case l of
        LimitString s \<Rightarrow> map_option Num (bytes X s)
      | LimitNumber n \<Rightarrow> Some n)"

text \<open>Truthiness of a limit: the empty string and the number zero are falsy.\<close>

definition limit_truthy :: "limit_option \<Rightarrow> bool" where
  "limit_truthy l =
     (case l of
        LimitString s \<Rightarrow> s \<noteq> []
      | LimitNumber n \<Rightarrow> n \<noteq> Num 0)"

definition matcher_identifiers :: "matcher_option \<Rightarrow> MediaTypeIdentifier list" where
  "matcher_identifiers m = (case m of MatcherOne i \<Rightarrow> [i] | MatcherMany l \<Rightarrow> l)"

text \<open>Case 1: the entry is the name of a default media type.\<close>

definition joinDefaultName ::
  "externals \<Rightarrow> string \<Rightarrow> jsnumber option \<Rightarrow> inflate_option \<Rightarrow> EncodingVariations \<Rightarrow> bool
     \<Rightarrow> js_error + PatchedParser" where
  "joinDefaultName X name lim infl ev rcl =
     (case getMediaTypeMatchers [IdString name] of
        Inl e \<Rightarrow> Inl e
      | Inr m \<Rightarrow>
          (case defaultMediaTypeParsers X name of
             None \<Rightarrow> Inl (new_Error ''Cannot use the in operator to search for defaultEncoding in undefined'')
           | Some defaultMediaTypeParser \<Rightarrow>
               (case getEncodings
                       \<lparr>cfg_inflate = None, cfg_limit = None, cfg_requireContentLength = None,
                        cfg_parser = (case dp_parser defaultMediaTypeParser of
                                        None \<Rightarrow> ParserUndefined | Some f \<Rightarrow> ParserFunction f),
                        cfg_matcher = MatcherOne (IdString name),
                        cfg_encodings = EncUndefined,
                        cfg_defaultEncoding = dp_defaultEncoding defaultMediaTypeParser,
                        cfg_emptyResponse = dp_emptyResponse defaultMediaTypeParser,
                        cfg_verify = None\<rparr>
                       ev (dp_defaultEncoding defaultMediaTypeParser) of
                  Inl e \<Rightarrow> Inl e
                | Inr (de, encs) \<Rightarrow>
                    Inr \<lparr>inflate = getInflate infl, limit = lim, requireContentLength = rcl,
                         encodings = encs, defaultEncoding = de,
                         emptyResponse = dp_emptyResponse defaultMediaTypeParser,
                         parser = dp_parser defaultMediaTypeParser,
                         matcher = m, verify = None\<rparr>)))"

text \<open>Case 2: the entry is an object whose matcher is the name of a default media
  type.\<close>

definition joinDefaultOverlay ::
  "externals \<Rightarrow> ParserConfiguration \<Rightarrow> string \<Rightarrow> DefaultParser \<Rightarrow> jsnumber option
     \<Rightarrow> inflate_option \<Rightarrow> EncodingVariations \<Rightarrow> bool \<Rightarrow> js_error + PatchedParser" where
  "joinDefaultOverlay X p name defaultParser lim infl ev rcl =
     (case getMediaTypeMatchers [IdString name] of
        Inl e \<Rightarrow> Inl e
      | Inr m \<Rightarrow>
          (case getEncodings p ev (dp_defaultEncoding defaultParser) of
             Inl e \<Rightarrow> Inl e
           | Inr (de, encs) \<Rightarrow>
               Inr \<lparr>inflate = getInflate (case cfg_inflate p of Some i \<Rightarrow> i | None \<Rightarrow> infl),
                    limit = (case cfg_limit p of
                               None \<Rightarrow> lim
                             | Some l \<Rightarrow> if limit_truthy l then convertLimit X l else lim),
                    requireContentLength =
                      (case cfg_requireContentLength p of Some b \<Rightarrow> b | None \<Rightarrow> rcl),
                    encodings = encs, defaultEncoding = de,
                    emptyResponse =
                      (case cfg_emptyResponse p of
                         Some JNull \<Rightarrow> None
                       | Some v \<Rightarrow> Some v
                       | None \<Rightarrow> dp_emptyResponse defaultParser),
                    parser =
                      (case cfg_parser p of
                         ParserFunction f \<Rightarrow> Some f
                       | ParserNull \<Rightarrow> None
                       | ParserUndefined \<Rightarrow> dp_parser defaultParser),
                    matcher = m, verify = cfg_verify p\<rparr>))"

text \<open>Case 3: any other object.  The entries of the object whose value is neither
  \<open>null\<close> nor \<open>false\<close> overwrite the defaults.\<close>

definition joinCustom ::
  "externals \<Rightarrow> ParserConfiguration \<Rightarrow> jsnumber option \<Rightarrow> inflate_option
     \<Rightarrow> EncodingVariations \<Rightarrow> bool \<Rightarrow> js_error + PatchedParser" where
  "joinCustom X p lim infl ev rcl =
     (case getEncodings p ev None of
        Inl e \<Rightarrow> Inl e
      | Inr (de, encs) \<Rightarrow>
          (case getMediaTypeMatchers (matcher_identifiers (cfg_matcher p)) of
             Inl e \<Rightarrow> Inl e
           | Inr m \<Rightarrow>
               Inr \<lparr>inflate = (case cfg_inflate p of Some i \<Rightarrow> getInflate i | None \<Rightarrow> getInflate infl),
                    limit = (case cfg_limit p of Some l \<Rightarrow> convertLimit X l | None \<Rightarrow> lim),
                    requireContentLength =
                      (case cfg_requireContentLength p of Some True \<Rightarrow> True | _ \<Rightarrow> rcl),
                    encodings = encs, defaultEncoding = de,
                    emptyResponse =
                      (case cfg_emptyResponse p of
                         Some JNull \<Rightarrow> None
                       | Some (JBool False) \<Rightarrow> None
                       | other \<Rightarrow> other),
                    parser = (case cfg_parser p of ParserFunction f \<Rightarrow> Some f | _ \<Rightarrow> None),
                    matcher = m, verify = cfg_verify p\<rparr>))"

definition joinEntry ::
  "externals \<Rightarrow> jsnumber option \<Rightarrow> inflate_option \<Rightarrow> EncodingVariations \<Rightarrow> bool
     \<Rightarrow> config_entry \<Rightarrow> js_error + PatchedParser" where
  "joinEntry X lim infl ev rcl entry =
     (case entry of
        DefaultName name \<Rightarrow> joinDefaultName X name lim infl ev rcl
      | Config p \<Rightarrow>
          (case cfg_matcher p of
             MatcherOne (IdString name) \<Rightarrow>
               (case defaultMediaTypeParsers X name of
                  Some defaultParser \<Rightarrow> joinDefaultOverlay X p name defaultParser lim infl ev rcl
                | None \<Rightarrow> joinCustom X p lim infl ev rcl)
           | _ \<Rightarrow> joinCustom X p lim infl ev rcl))"

definition joinParserConfigurations ::
  "externals \<Rightarrow> ParserConfigurations option \<Rightarrow> limit_option \<Rightarrow> inflate_option
     \<Rightarrow> EncodingVariations \<Rightarrow> bool \<Rightarrow> js_error + PatchedParser list" where
  "joinParserConfigurations X parserConfigurations defaultLimit infl ev rcl =
     (let lim = convertLimit X defaultLimit;
          entries = (case parserConfigurations of
                       None \<Rightarrow> [DefaultName ''application/x-www-form-urlencoded'',
                                 DefaultName ''application/json'',
                                 DefaultName ''text/plain'',
                                 DefaultName ''application/octet-stream'']
                     | Some (Single e) \<Rightarrow> [e]
                     | Some (Multiple es) \<Rightarrow> es)
      in sequence (map (joinEntry X lim infl ev rcl) entries))"

section \<open>Content encodings (decompressStream.ts)\<close>

definition matchContentEncoding :: "string \<Rightarrow> inflate_setting \<Rightarrow> string list \<Rightarrow> bool" where
  "matchContentEncoding contentEncoding infl globalDecompressorNames =
     (if contentEncoding = ''identity'' then True
      else (let decompressors = (case infl of
                                   InflateAll \<Rightarrow> globalDecompressorNames
                                 | InflateNames names \<Rightarrow> names)
            in contentEncoding \<in> set decompressors))"

text \<open>A decompressor factory either creates its stream or throws.\<close>

datatype decompressor = CreatesStream | Throws js_error

section \<open>The request dispatcher and the streaming engine (bodyParser.ts)\<close>

text \<open>An error made by \<open>createError\<close>: status, message, \<open>type\<close> and the other properties
  it is given.\<close>

record http_error =
  he_status :: nat
  he_message :: string
  he_type :: "string option"
  he_details :: "(string \<times> jsvalue) list"

definition createError :: "nat \<Rightarrow> string \<Rightarrow> string option \<Rightarrow> (string \<times> jsvalue) list \<Rightarrow> http_error" where
  "createError st msg ty details =
     \<lparr>he_status = st, he_message = msg, he_type = ty, he_details = details\<rparr>"

text \<open>An error of a stream, which may carry a \<open>code\<close>.\<close>

record stream_error = js_error +
  code :: "string option"

text \<open>What the completion callback is called with.\<close>

datatype callback =
    Failure http_error
  | StreamFailure stream_error
  | Success "jsvalue option"

text \<open>Everything \<open>rawBodyParser\<close> is called with.  Whether the buffer encoding is a
  stream decoder is read off the encoder, as the dispatcher does.\<close>

record 'd rawBodyParser_args =
  arg_req :: Request
  arg_availableDecompressors :: "string \<rightharpoonup> decompressor"
  arg_availableDecompressorNames :: "string list"
  arg_parseConfiguration :: PatchedParser
  arg_contentLength :: "int option"
  arg_contentEncoding :: string
  arg_defaultEncoding :: "string option"
  arg_limit :: "jsnumber option"
  arg_bufferEncoding :: "'d BufferEncoder option"

definition bufferEncodingIsStreamDecoder :: "'d rawBodyParser_args \<Rightarrow> bool" where
  "bufferEncodingIsStreamDecoder a =
     (case arg_bufferEncoding a of
        Some (ChunkedBufferEncoder _ _ _ _ _) \<Rightarrow> True
      | _ \<Rightarrow> False)"

text \<open>The outcome of one call of \<open>readStream\<close>.\<close>

datatype 'd dispatch =
    CallbackError http_error
  | CallbackOk "jsvalue option"
  | Thrown js_error
  | CallRawBodyParser "'d rawBodyParser_args"

definition quoted :: "string \<Rightarrow> string" where
  "quoted s = [CHR 0x27] @ s @ [CHR 0x27]"

definition createErrorString :: "string \<Rightarrow> string list \<Rightarrow> string" where
  "createErrorString ty preTypes =
     ''Specified '' @ quoted ty @ '' is not available''
       @ (if length preTypes > 0
          then '' for this '' @ join '' and '' (map quoted preTypes)
          else [])
       @ '' on this server.''"

definition opt_string :: "string option \<Rightarrow> jsvalue" where
  "opt_string s = (case s of None \<Rightarrow> JUndefined | Some v \<Rightarrow> JString v)"

definition opt_number :: "jsnumber option \<Rightarrow> jsvalue" where
  "opt_number n = (case n of None \<Rightarrow> JNull | Some v \<Rightarrow> JNumber v)"

subsection \<open>The values \<open>readStream\<close> computes from the request\<close>

definition contentEncoding_of :: "(string \<rightharpoonup> string) \<Rightarrow> string" where
  "contentEncoding_of h =
     (let lowered = toLowerCase (case h ''content-encoding'' of Some v \<Rightarrow> v | None \<Rightarrow> [])
      in if lowered = [] then ''identity'' else lowered)"

text \<open>\<open>parseInt(header) || null\<close>: zero and \<open>NaN\<close> become \<open>null\<close>.\<close>

definition contentLength_of :: "externals \<Rightarrow> (string \<rightharpoonup> string) \<Rightarrow> int option" where
  "contentLength_of X h =
     (case h ''content-length'' of
        None \<Rightarrow> None
      | Some v \<Rightarrow>
          (case parseInt X v of
             None \<Rightarrow> None
           | Some n \<Rightarrow> if n = 0 then None else Some n))"

definition bodilessMethod :: "string \<Rightarrow> bool" where
  "bodilessMethod m = (m \<in> set [''GET'', ''DELETE''])"

text \<open>The \<open>try\<close> block: the content type is parsed when the request has a
  \<open>Content-Type\<close> key or no default content type is configured.\<close>

definition parsedMediaType_of ::
  "externals \<Rightarrow> MediaType option \<Rightarrow> (string \<rightharpoonup> string) \<Rightarrow> js_error + ParsedMediaType option" where
  "parsedMediaType_of X defaultContentType h =
     (if truthy (h ''Content-Type'') \<or> defaultContentType = None
      then map_sum id Some (contentType_parse X (h ''content-type''))
      else Inr None)"

definition mediaType_of :: "ParsedMediaType option \<Rightarrow> MediaType option \<Rightarrow> MediaType option" where
  "mediaType_of parsedMediaType defaultContentType =
     (case parsedMediaType of
        Some pm \<Rightarrow> Some (split CHR ''/'' (mtype pm))
      | None \<Rightarrow> defaultContentType)"

definition allowedMediaTypeParsers :: "PatchedParser list \<Rightarrow> MediaType \<Rightarrow> PatchedParser list" where
  "allowedMediaTypeParsers parsers mediaType =
     filter (\<lambda>p. matchAnyType (matcher p) mediaType) parsers"

text \<open>The charset of the request, lower-cased, or the encoding of the default content
  type; \<open>None\<close> is \<open>false\<close>.\<close>

definition encoding_of :: "ParsedMediaType option \<Rightarrow> string option \<Rightarrow> string option" where
  "encoding_of parsedMediaType defaultContentTypeEncoding =
     (case parsedMediaType of
        Some pm \<Rightarrow> map_option toLowerCase (parameters pm ''charset'')
      | None \<Rightarrow> defaultContentTypeEncoding)"

definition allowedCharsetParsers ::
  "PatchedParser list \<Rightarrow> string option \<Rightarrow> string list \<Rightarrow> PatchedParser list" where
  "allowedCharsetParsers allowed encoding availableBufferEncodingNames =
     filter (\<lambda>p. matchCharsetEncoding (encodings p) encoding availableBufferEncodingNames
                   (defaultEncoding p)) allowed"

definition parseConfiguration_of ::
  "PatchedParser list \<Rightarrow> string \<Rightarrow> string list \<Rightarrow> PatchedParser option" where
  "parseConfiguration_of allowedCharset contentEncoding availableDecompressorNames =
     List.find (\<lambda>p. matchContentEncoding contentEncoding (inflate p) availableDecompressorNames)
       allowedCharset"

subsection \<open>mediaTypeParser\<close>

text \<open>\<open>x || y\<close> on the optional properties of an error.\<close>

definition status_or :: "nat option \<Rightarrow> nat \<Rightarrow> nat" where
  "status_or st d = (case st of None \<Rightarrow> d | Some n \<Rightarrow> if n = 0 then d else n)"

definition type_or :: "string option \<Rightarrow> string \<Rightarrow> string" where
  "type_or ty d = (if truthy ty then (case ty of Some t \<Rightarrow> t | None \<Rightarrow> d) else d)"

definition charsetUnsupported :: "string option \<Rightarrow> string list \<Rightarrow> http_error" where
  "charsetUnsupported encoding availableBufferEncodingNames =
     (case (if truthy encoding then encoding else None) of
        None \<Rightarrow>
          createError 415
            (''Default charset is not set for this '' @ quoted ''Media-Type''
               @ ''. Please provide the '' @ quoted ''charset'' @ '' for this '' @ quoted ''Media-Type'')
            (Some ''charset.unsupported'')
            [(''charset'', case encoding of None \<Rightarrow> JBool False | Some e \<Rightarrow> JString e)]
      | Some e \<Rightarrow>
          createError 415
            (createErrorString (''charset='' @ e)
               (if e \<in> set availableBufferEncodingNames then [''Media-Type''] else []))
            (Some ''charset.unsupported'')
            [(''charset'', JString e)])"

definition encodingUnsupported :: "string \<Rightarrow> string list \<Rightarrow> http_error" where
  "encodingUnsupported contentEncoding availableDecompressorNames =
     createError 415
       (createErrorString (''Content-Encoding: '' @ contentEncoding)
          (if contentEncoding \<in> set availableDecompressorNames
           then [''Media-Type'', ''charset''] else []))
       (Some ''encoding.unsupported'')
       [(''contentEncoding'', JString contentEncoding)]"

text \<open>The function \<open>readStream\<close> that \<open>mediaTypeParser\<close> returns, applied to a request.\<close>

definition mediaTypeParser ::
  "externals \<Rightarrow> PatchedParser list \<Rightarrow> (string \<rightharpoonup> decompressor) \<Rightarrow> string list
     \<Rightarrow> (string \<rightharpoonup> 'd BufferEncoder) \<Rightarrow> string list \<Rightarrow> bool \<Rightarrow> string option
     \<Rightarrow> MediaType option \<Rightarrow> Request \<Rightarrow> 'd dispatch" where
  "mediaTypeParser X parsers availableDecompressors availableDecompressorNames
       availableBufferEncodings availableBufferEncodingNames requireContentLength'
       defaultContentTypeEncoding defaultContentType req =
     (case req_headers req of
        None \<Rightarrow> CallbackError (createError 400 ''Request Headers not set'' None [])
      | Some h \<Rightarrow>
          if contentLength_of X h = None \<and> requireContentLength'
          then CallbackError
                 (createError 411
                    (''Header '' @ quoted ''Content-Length''
                       @ '' not specified but required by configuration.'')
                    (Some ''contentLength.missing'') [])
          else
          (case parsedMediaType_of X defaultContentType h of
             Inl err \<Rightarrow>
               if bodilessMethod (req_method req) then CallbackOk None
               else CallbackError
                      (createError 400
                         (message err @ '': ''
                            @ (case h ''content-type'' of Some v \<Rightarrow> v | None \<Rightarrow> ''undefined''))
                         (Some ''mediaType.invalid'')
                         [(''mediaType'', opt_string (h ''media-type''))])
           | Inr parsedMediaType \<Rightarrow>
          (case mediaType_of parsedMediaType defaultContentType of
             None \<Rightarrow> Thrown (new_Error (''Header '' @ quoted ''Content-Type'' @ '' has to be specified''))
           | Some mediaType \<Rightarrow>
          if allowedMediaTypeParsers parsers mediaType = []
          then CallbackError
                 (createError 415 ''Unsupported Media Type'' (Some ''mediaType.unsupported'')
                    [(''mediaType'', JArray (map JString mediaType))])
          else
          (let encoding = encoding_of parsedMediaType defaultContentTypeEncoding;
               allowedCharset = allowedCharsetParsers (allowedMediaTypeParsers parsers mediaType)
                                  encoding availableBufferEncodingNames
           in
          if allowedCharset = []
          then CallbackError (charsetUnsupported encoding availableBufferEncodingNames)
          else
          (let parseConfiguration =
                 parseConfiguration_of allowedCharset (contentEncoding_of h) availableDecompressorNames
           in
          if (h ''transfer-encoding'' = None \<and> contentLength_of X h = None)
             \<or> bodilessMethod (req_method req)
          then CallbackOk (case parseConfiguration of None \<Rightarrow> None | Some pc \<Rightarrow> emptyResponse pc)
          else
          (case parseConfiguration of
             None \<Rightarrow> CallbackError (encodingUnsupported (contentEncoding_of h) availableDecompressorNames)
           | Some pc \<Rightarrow>
               (let defaultEncoding' =
                      (if truthy encoding then encoding
                       else if truthy (defaultEncoding pc) then defaultEncoding pc
                       else None)
                in case (case defaultEncoding' of
                           None \<Rightarrow> Some None
                         | Some d \<Rightarrow> map_option Some (availableBufferEncodings d)) of
                     None \<Rightarrow> Thrown (new_Error ''Cannot use the in operator to search for onData in undefined'')
                   | Some bufferEncoding \<Rightarrow>
                       CallRawBodyParser
                         \<lparr>arg_req = req,
                          arg_availableDecompressors = availableDecompressors,
                          arg_availableDecompressorNames = availableDecompressorNames,
                          arg_parseConfiguration = pc,
                          arg_contentLength = contentLength_of X h,
                          arg_contentEncoding = contentEncoding_of h,
                          arg_defaultEncoding = defaultEncoding',
                          arg_limit = limit pc,
                          arg_bufferEncoding = bufferEncoding\<rparr>)))))))"

subsection \<open>rawBodyParser\<close>

text \<open>
  The state of one call of \<open>rawBodyParser\<close>: its local variables, the encoder with its
  current internal state, whether the listeners are attached to the stream, and the
  calls of the completion callback made so far, each with the way it was delivered
  (on the next tick when \<open>sync\<close> was still set, else at once).
\<close>

datatype delivery = NextTick | Immediate

record 'd rbp_state =
  complete :: bool
  sync :: bool
  received :: int
  chunks :: "jsvalue list"
  verifyBuffer :: "buffer list"
  encoder :: "'d BufferEncoder option"
  listening :: bool
  callbacks :: "(delivery \<times> callback) list"

datatype stream_event =
    Aborted
  | Data buffer
  | End
  | Error stream_error
  | Close

definition doneWith :: "callback \<Rightarrow> 'd rbp_state \<Rightarrow> 'd rbp_state" where
  "doneWith cb s =
     s\<lparr>complete := True,
       callbacks := callbacks s @ [(if sync s then NextTick else Immediate, cb)]\<rparr>"

definition decompressStream :: "'d rawBodyParser_args \<Rightarrow> js_error + unit" where
  "decompressStream a =
     (if arg_contentEncoding a = ''identity''
         \<and> ''identity'' \<in> set (arg_availableDecompressorNames a)
      then Inr ()
      else if arg_contentEncoding a \<noteq> ''identity''
      then (case arg_availableDecompressors a (arg_contentEncoding a) of
              None \<Rightarrow> Inl (new_Error ''availableDecompressors[contentEncoding] is not a function'')
            | Some (Throws e) \<Rightarrow> Inl e
            | Some CreatesStream \<Rightarrow> Inr ())
      else Inl \<lparr>message = ''server does not allow uncompressed requests.'', status = None,
                etype = Some ''unsupported.content.encoding''\<rparr>)"

text \<open>The body of \<open>rawBodyParser\<close> up to the point where it returns.\<close>

definition rawBodyParser :: "'d rawBodyParser_args \<Rightarrow> 'd rbp_state" where
  "rawBodyParser a =
     (let s0 = \<lparr>complete = False, sync = True, received = 0, chunks = [], verifyBuffer = [],
                encoder = arg_bufferEncoding a, listening = False, callbacks = []\<rparr>
      in case decompressStream a of
           Inl err \<Rightarrow>
             doneWith (Failure (createError (status_or (status err) 415)
                                  (''Decompression failed: '' @ message err)
                                  (Some (type_or (etype err) ''decompression.failed''))
                                  [(''contentEncoding'', JString (arg_contentEncoding a))])) s0
         | Inr _ \<Rightarrow> s0\<lparr>listening := True, sync := False\<rparr>)"

definition exceeds :: "int \<Rightarrow> jsnumber option \<Rightarrow> bool" where
  "exceeds n lim =
     (case lim of
        None \<Rightarrow> False
      | Some Infinity \<Rightarrow> False
      | Some (Num l) \<Rightarrow> n > l)"

definition onAborted :: "'d rawBodyParser_args \<Rightarrow> 'd rbp_state \<Rightarrow> 'd rbp_state" where
  "onAborted a s =
     (if complete s then s
      else doneWith (Failure (createError 400 ''request aborted'' (Some ''request.aborted'')
                                [(''code'', JString ''ECONNABORTED'')])) s)"

definition onData_handler :: "'d rawBodyParser_args \<Rightarrow> buffer \<Rightarrow> 'd rbp_state \<Rightarrow> 'd rbp_state" where
  "onData_handler a chunk s =
     (if complete s then s
      else
        (let s1 = s\<lparr>received := received s + int (length chunk)\<rparr>;
             s2 = (if exceeds (received s1) (arg_limit a)
                   then doneWith (Failure (createError 413 ''request entity too large''
                                             (Some ''entity.too.large'')
                                             [(''limit'', opt_number (arg_limit a)),
                                              (''received'', JNumber (Num (received s1)))])) s1
                   else s1);
             s3 = (case encoder s2 of
                     Some (ChunkedBufferEncoder od oe rd names d) \<Rightarrow>
                       (case od d chunk of
                          (piece, d') \<Rightarrow>
                            s2\<lparr>chunks := chunks s2 @ [piece],
                                encoder := Some (ChunkedBufferEncoder od oe rd names d')\<rparr>)
                   | _ \<Rightarrow> s2\<lparr>chunks := chunks s2 @ [JBuffer chunk]\<rparr>)
         in if verify (arg_parseConfiguration a) \<noteq> None \<and> bufferEncodingIsStreamDecoder a
            then s3\<lparr>verifyBuffer := verifyBuffer s3 @ [chunk]\<rparr>
            else s3))"

text \<open>\<open>Buffer.concat\<close> of the collected raw chunks.\<close>

definition Buffer_concat :: "jsvalue list \<Rightarrow> jsvalue" where
  "Buffer_concat bs = JBuffer (concat (map (\<lambda>v. case v of JBuffer b \<Rightarrow> b | _ \<Rightarrow> []) bs))"

text \<open>A stream decoder is flushed at the end of the stream: the piece \<open>onEnd\<close> returns
  joins the chunks.\<close>

definition flushDecoder :: "'d rbp_state \<Rightarrow> 'd rbp_state" where
  "flushDecoder s =
     (case encoder s of
        Some (ChunkedBufferEncoder od oe rd names d) \<Rightarrow>
          (case oe d of
             (piece, d') \<Rightarrow>
               s\<lparr>chunks := chunks s @ [piece],
                  encoder := Some (ChunkedBufferEncoder od oe rd names d')\<rparr>)
      | _ \<Rightarrow> s)"

text \<open>Decoding, parsing and verifying a body that is not empty: what \<open>done\<close> is called
  with, and whether the verify buffer has been emptied by then.\<close>

definition parseBody :: "externals \<Rightarrow> 'd rawBodyParser_args \<Rightarrow> 'd rbp_state \<Rightarrow> callback \<times> bool" where
  "parseBody X a s =
     (let pc = arg_parseConfiguration a;
          buf = (case encoder s of
                   Some (ChunkedBufferEncoder od oe rd names d) \<Rightarrow> rd (chunks s)
                 | _ \<Rightarrow> Buffer_concat (chunks s));
          decoded = (case (encodings pc, encoder s, buf) of
                       (Some _, Some (UnchunkedBufferEncoder tr names), JBuffer b) \<Rightarrow> tr b
                     | _ \<Rightarrow> buf)
      in case (case parser pc of Some f \<Rightarrow> f decoded | None \<Rightarrow> Inr decoded) of
           Inl err \<Rightarrow>
             (Failure (createError (status_or (status err) 400)
                         (''Parse error: '' @ message err)
                         (Some (type_or (etype err) ''entity.parse.failed''))
                         [(''body'', decoded)]), False)
         | Inr body \<Rightarrow>
             (case verify pc of
                None \<Rightarrow> (Success (Some body), False)
              | Some vf \<Rightarrow>
                  (case vf (arg_req a)
                          (if bufferEncodingIsStreamDecoder a
                           then JBuffer (concat (verifyBuffer s)) else buf)
                          body (arg_defaultEncoding a) of
                     Some err \<Rightarrow>
                       (Failure (createError (status_or (status err) 403)
                                   (''Verify function did not match: '' @ message err)
                                   (Some (type_or (etype err) ''entity.verify.failed''))
                                   [(''body'', case body of
                                                 JString _ \<Rightarrow> body
                                               | _ \<Rightarrow> JSON_stringify X body)]), False)
                   | None \<Rightarrow> (Success (Some body), True))))"

text \<open>The end of the stream without an error, once the size check has passed.\<close>

definition finish :: "externals \<Rightarrow> 'd rawBodyParser_args \<Rightarrow> 'd rbp_state \<Rightarrow> 'd rbp_state" where
  "finish X a s =
     (let s1 = flushDecoder s in
      if received s1 = 0
      then doneWith (Success (emptyResponse (arg_parseConfiguration a))) s1
      else (case parseBody X a s1 of
              (cb, emptied) \<Rightarrow>
                doneWith cb (if emptied then s1\<lparr>verifyBuffer := []\<rparr> else s1)))"

definition onEnd_handler ::
  "externals \<Rightarrow> 'd rawBodyParser_args \<Rightarrow> stream_error option \<Rightarrow> 'd rbp_state \<Rightarrow> 'd rbp_state" where
  "onEnd_handler X a err s =
     (if complete s then s
      else
        (case err of
           Some e \<Rightarrow>
             if code e = Some ''Z_DATA_ERROR''
             then doneWith (Failure (createError 400 ''incorrect header check'' (Some ''header.check'')
                                       [(''limit'', opt_number (arg_limit a)),
                                        (''received'', JNumber (Num (received s)))])) s
             else if code e = Some ''Z_BUF_ERROR''
             then doneWith (Failure (createError 400 ''unexpected end of file'' (Some ''end.of.file'')
                                       [(''limit'', opt_number (arg_limit a)),
                                        (''received'', JNumber (Num (received s)))])) s
             else doneWith (StreamFailure e) s
         | None \<Rightarrow>
             (case arg_contentLength a of
                Some n \<Rightarrow>
                  if received s \<noteq> n \<and> arg_contentEncoding a = ''identity''
                  then doneWith (Failure (createError 400 ''request size did not match content length''
                                            (Some ''request.size.invalid'')
                                            [(''expected'', JNumber (Num n)),
                                             (''length'', JNumber (Num n)),
                                             (''received'', JNumber (Num (received s)))])) s
                  else finish X a s
              | None \<Rightarrow> finish X a s)))"

definition cleanup :: "'d rbp_state \<Rightarrow> 'd rbp_state" where
  "cleanup s = s\<lparr>chunks := [], listening := False\<rparr>"

text \<open>One event of the stream reaches the handler registered for it, while the
  listeners are attached.\<close>

definition step :: "externals \<Rightarrow> 'd rawBodyParser_args \<Rightarrow> 'd rbp_state \<Rightarrow> stream_event \<Rightarrow> 'd rbp_state" where
  "step X a s ev =
     (if \<not> listening s then s
      else (case ev of
              Aborted \<Rightarrow> onAborted a s
            | Data chunk \<Rightarrow> onData_handler a chunk s
            | End \<Rightarrow> onEnd_handler X a None s
            | Error e \<Rightarrow> onEnd_handler X a (Some e) s
            | Close \<Rightarrow> cleanup s))"

text \<open>The state after \<open>rawBodyParser\<close> has returned and the stream has emitted the given
  events.\<close>

definition run :: "externals \<Rightarrow> 'd rawBodyParser_args \<Rightarrow> stream_event list \<Rightarrow> 'd rbp_state" where
  "run X a evs = foldl (step X a) (rawBodyParser a) evs"

section \<open>An invariant of the alias table\<close>


section \<open>Concrete instances\<close>

text \<open>
  Finite tables for the outside functions, each entry being the value the real function
  returns on that argument, and everything else an error or \<open>null\<close>.  They serve to
  run the model on concrete requests.
\<close>

definition poison_text :: string where
  \<open>poison_text = ''{"user":"tobi","__proto__":"poison"}''\<close>

definition poison_object :: jsvalue where
  "poison_object = JObject [(''user'', JString ''tobi''), (''__proto__'', JString ''poison'')]"

definition harmless_text :: string where
  \<open>harmless_text = ''{"user":"tobi","other":"uses __proto__ in a value"}''\<close>

definition harmless_object :: jsvalue where
  "harmless_object =
     JObject [(''user'', JString ''tobi''), (''other'', JString ''uses __proto__ in a value'')]"

definition table_externals :: externals where
  "table_externals =
     \<lparr>bytes = (\<lambda>s. if s = ''20kb'' then Some 20480
                   else if s = ''10kb'' then Some 10240
                   else None),
      JSON_parse = (\<lambda>v. if v = JString poison_text then Inr poison_object
                        else if v = JString harmless_text then Inr harmless_object
                        else Inl (new_Error ''Unexpected token'')),
      JSON_stringify = (\<lambda>v. JUndefined),
      querystring_parse = (\<lambda>v maxKeys. JObject []),
      parseInt = (\<lambda>s. if s = ''0'' then Some 0
                      else if s = ''8'' then Some 8
                      else None),
      contentType_parse =
        (\<lambda>h. if h = Some ''application/json''
              then Inr \<lparr>mtype = ''application/json'', parameters = Map.empty\<rparr>
              else if h = Some ''application/octet-stream''
              then Inr \<lparr>mtype = ''application/octet-stream'', parameters = Map.empty\<rparr>
              else if h = Some ''foo/bar''
              then Inr \<lparr>mtype = ''foo/bar'', parameters = Map.empty\<rparr>
              else if h = None
              then Inl (new_Error ''content-type header is missing from object'')
              else Inl (new_Error ''invalid media type''))\<rparr>"

text \<open>A stream decoder for ASCII text, as the native string decoder behaves on it: every
  chunk decodes to its own characters and the pieces are joined.\<close>

definition ascii_decoder :: "unit BufferEncoder" where
  "ascii_decoder =
     ChunkedBufferEncoder
       (\<lambda>d chunk. (JString chunk, d))
       (\<lambda>d. (JString [], d))
       (\<lambda>pieces. JString (concat (map (\<lambda>v. case v of JString t \<Rightarrow> t | _ \<Rightarrow> []) pieces)))
       [''utf-8'', ''utf8'']
       ()"



text \<open>A server that inflates gzip and deflate only, and a request that declares the
  identity encoding.\<close>

definition gzip_deflate_parser :: PatchedParser where
  "gzip_deflate_parser =
     \<lparr>inflate = InflateNames [''gzip'', ''deflate''], limit = Some (Num 10240),
      requireContentLength = False, encodings = None, defaultEncoding = None,
      emptyResponse = Some (JBuffer []), parser = None,
      matcher = [Template (Some ''application'', Some ''octet-stream'')], verify = None\<rparr>"

definition identity_request :: Request where
  "identity_request =
     \<lparr>req_headers = Some [''content-encoding'' \<mapsto> ''identity'',
                          ''content-type'' \<mapsto> ''application/octet-stream'',
                          ''transfer-encoding'' \<mapsto> ''chunked''],
      req_method = ''POST''\<rparr>"

definition zlib_decompressors :: "string \<rightharpoonup> decompressor" where
  "zlib_decompressors = [''deflate'' \<mapsto> CreatesStream, ''gzip'' \<mapsto> CreatesStream]"

definition identity_request_args :: "unit rawBodyParser_args" where
  "identity_request_args =
     \<lparr>arg_req = identity_request,
      arg_availableDecompressors = zlib_decompressors,
      arg_availableDecompressorNames = [''deflate'', ''gzip''],
      arg_parseConfiguration = gzip_deflate_parser,
      arg_contentLength = None,
      arg_contentEncoding = ''identity'',
      arg_defaultEncoding = None,
      arg_limit = Some (Num 10240),
      arg_bufferEncoding = None\<rparr>"

text \<open>The parsers of a body parser without options, and two requests with the method
  GET.\<close>

definition default_parsers :: "externals \<Rightarrow> PatchedParser list" where
  "default_parsers X =
     (case joinParserConfigurations X None (LimitString ''20kb'') (InflateString ''identity'')
             builtinEncodingVariations False of
        Inr parsers \<Rightarrow> parsers
      | Inl _ \<Rightarrow> [])"

definition get_foo_bar_request :: Request where
  "get_foo_bar_request =
     \<lparr>req_headers = Some [''content-type'' \<mapsto> ''foo/bar''], req_method = ''GET''\<rparr>"


text \<open>The names of the buffer encodings that a body parser without options makes
  available, the entries of its encoder table for UTF-8, and further requests.\<close>

definition node_encoding_names :: "string list" where
  "node_encoding_names =
     [''utf-8'', ''utf8'', ''ucs-2'', ''ucs2'', ''utf16le'', ''latin1'', ''ascii'', ''base64'',
      ''base64url'', ''hex'', ''binary'']"

definition utf8_encodings :: "string \<rightharpoonup> unit BufferEncoder" where
  "utf8_encodings = [''utf-8'' \<mapsto> ascii_decoder, ''utf8'' \<mapsto> ascii_decoder]"


definition post_json_request :: Request where
  "post_json_request =
     \<lparr>req_headers = Some [''content-type'' \<mapsto> ''application/json'',
                          ''transfer-encoding'' \<mapsto> ''chunked''],
      req_method = ''POST''\<rparr>"

text \<open>What the dispatcher hands to the engine for the POST request with a JSON body.\<close>

definition json_args :: "unit rawBodyParser_args" where
  "json_args =
     \<lparr>arg_req = post_json_request,
      arg_availableDecompressors = Map.empty,
      arg_availableDecompressorNames = [''identity''],
      arg_parseConfiguration =
        \<lparr>inflate = InflateNames [''identity''], limit = Some (Num 20480),
         requireContentLength = False, encodings = Some EncodingsTrue,
         defaultEncoding = Some ''utf-8'', emptyResponse = Some (JObject []),
         parser = Some (jsonParser table_externals),
         matcher = [Template (Some ''application'', Some ''json'')], verify = None\<rparr>,
      arg_contentLength = None,
      arg_contentEncoding = ''identity'',
      arg_defaultEncoding = Some ''utf-8'',
      arg_limit = Some (Num 20480),
      arg_bufferEncoding = Some ascii_decoder\<rparr>"

text \<open>Configuration objects that set nothing but a matcher, a limit of zero, or a
  default encoding together with \<open>encodings: false\<close>.\<close>

definition plain_config :: "string \<Rightarrow> ParserConfiguration" where
  "plain_config name =
     \<lparr>cfg_inflate = None, cfg_limit = None, cfg_requireContentLength = None,
      cfg_parser = ParserUndefined, cfg_matcher = MatcherOne (IdString name),
      cfg_encodings = EncUndefined, cfg_defaultEncoding = None, cfg_emptyResponse = None,
      cfg_verify = None\<rparr>"

definition zero_limit_config :: "string \<Rightarrow> ParserConfiguration" where
  "zero_limit_config name = (plain_config name)\<lparr>cfg_limit := Some (LimitNumber (Num 0))\<rparr>"





section \<open>Theorems\<close>

subsection \<open>The media type matcher\<close>

text \<open>
  C10. The identifier \<open>/\<close> passes construction: it splits into two empty components,
  which is the required length two.  The template it yields matches every media
  type, because \<open>matchType\<close> treats an empty component like a wildcard; the wildcard
  template of \<open>*/*\<close> matches the same way.
\<close>

theorem C10_slash_identifier_matches_everything:
  "getMediaTypeIdentifier ''/'' = Inr (Some [], Some [])
   \<and> getMediaTypeMatchers [IdString ''/''] = Inr [Template (Some [], Some [])]
   \<and> matchType (Some [], Some []) mediaType
   \<and> matchAnyType [Template (Some [], Some [])] mediaType
   \<and> matchType (Some [], Some []) mediaType = matchType (None, None) mediaType"
  by (simp add: getMediaTypeIdentifier_def getMediaTypeMatchers_def matchType_def
      matchAnyType_def falsy_component_def)

subsection \<open>Encoding names\<close>

lemma remdups_append_filter:
  "remdups (xs @ ys) = remdups (filter (\<lambda>x. x \<notin> set ys) xs) @ remdups ys"
  by (induction xs) auto

lemma unique_remdups: "unique xs = rev (remdups (rev xs))"
proof (induction xs rule: unique.induct)
  case 1
  show ?case by simp
next
  case (2 x xs)
  have "rev (remdups (rev (x # xs))) = rev (remdups (rev xs @ [x]))" by simp
  also have "\<dots> = x # rev (remdups (filter (\<lambda>y. y \<noteq> x) (rev xs)))"
    by (simp add: remdups_append_filter)
  also have "filter (\<lambda>y. y \<noteq> x) (rev xs) = rev (filter (\<lambda>y. y \<noteq> x) xs)"
    by (simp add: rev_filter)
  finally show ?case using 2 by simp
qed

lemma set_unique [simp]: "set (unique xs) = set xs"
  by (simp add: unique_remdups)

lemma distinct_unique [simp]: "distinct (unique xs)"
  by (simp add: unique_remdups)

































subsection \<open>Parser configurations\<close>

lemmas join_defs = joinParserConfigurations_def joinEntry_def joinDefaultName_def
  joinDefaultOverlay_def joinCustom_def getMediaTypeMatchers_def getMediaTypeIdentifier_def
  defaultMediaTypeParsers_def getEncodings_def encodings_falsy_def truthy_def getInflate_def
  convertLimit_def limit_truthy_def matcher_identifiers_def Let_def

lemma join_json:
  "joinParserConfigurations X (Some (Single (DefaultName ''application/json''))) defaultLimit infl ev rcl
     = Inr [\<lparr>inflate = getInflate infl, limit = convertLimit X defaultLimit,
             requireContentLength = rcl, encodings = Some EncodingsTrue,
             defaultEncoding = Some ''utf-8'', emptyResponse = Some (JObject []),
             parser = Some (jsonParser X),
             matcher = [Template (Some ''application'', Some ''json'')], verify = None\<rparr>]"
  by (simp add: joinParserConfigurations_def joinEntry_def joinDefaultName_def
      getMediaTypeMatchers_def getMediaTypeIdentifier_def defaultMediaTypeParsers_def
      getEncodings_def encodings_falsy_def truthy_def)

lemma join_defaults:
  "joinParserConfigurations X None defaultLimit infl ev rcl =
     Inr [\<lparr>inflate = getInflate infl, limit = convertLimit X defaultLimit,
           requireContentLength = rcl, encodings = Some EncodingsTrue,
           defaultEncoding = Some ''utf-8'', emptyResponse = Some (JObject []),
           parser = Some (querystringParser X 1000),
           matcher = [Template (Some ''application'', Some ''x-www-form-urlencoded'')],
           verify = None\<rparr>,
          \<lparr>inflate = getInflate infl, limit = convertLimit X defaultLimit,
           requireContentLength = rcl, encodings = Some EncodingsTrue,
           defaultEncoding = Some ''utf-8'', emptyResponse = Some (JObject []),
           parser = Some (jsonParser X),
           matcher = [Template (Some ''application'', Some ''json'')], verify = None\<rparr>,
          \<lparr>inflate = getInflate infl, limit = convertLimit X defaultLimit,
           requireContentLength = rcl, encodings = Some EncodingsTrue,
           defaultEncoding = Some ''utf-8'', emptyResponse = Some (JString []),
           parser = None,
           matcher = [Template (Some ''text'', Some ''plain'')], verify = None\<rparr>,
          \<lparr>inflate = getInflate infl, limit = convertLimit X defaultLimit,
           requireContentLength = rcl, encodings = None,
           defaultEncoding = None, emptyResponse = Some (JBuffer []),
           parser = None,
           matcher = [Template (Some ''application'', Some ''octet-stream'')], verify = None\<rparr>]"
  by (simp add: joinParserConfigurations_def joinEntry_def joinDefaultName_def
      getMediaTypeMatchers_def getMediaTypeIdentifier_def defaultMediaTypeParsers_def
      getEncodings_def encodings_falsy_def truthy_def Let_def)

text \<open>
  C4. Without parser configurations and with the default options (default limit
  \<open>20kb\<close>, which \<open>bytes\<close> reads as 20480, inflate \<open>identity\<close>, content length not
  required), \<open>joinParserConfigurations\<close> returns exactly four parsers, in the order
  x-www-form-urlencoded, json, text/plain, octet-stream, each with the limit 20480 and
  with the empty values \<open>{}\<close>, \<open>{}\<close>, the empty string and the empty buffer.
\<close>

theorem C4_default_configurations:
  assumes "bytes X ''20kb'' = Some 20480"
  shows "joinParserConfigurations X None (LimitString ''20kb'') (InflateString ''identity'') ev False =
     Inr [\<lparr>inflate = InflateNames [''identity''], limit = Some (Num 20480),
           requireContentLength = False, encodings = Some EncodingsTrue,
           defaultEncoding = Some ''utf-8'', emptyResponse = Some (JObject []),
           parser = Some (querystringParser X 1000),
           matcher = [Template (Some ''application'', Some ''x-www-form-urlencoded'')],
           verify = None\<rparr>,
          \<lparr>inflate = InflateNames [''identity''], limit = Some (Num 20480),
           requireContentLength = False, encodings = Some EncodingsTrue,
           defaultEncoding = Some ''utf-8'', emptyResponse = Some (JObject []),
           parser = Some (jsonParser X),
           matcher = [Template (Some ''application'', Some ''json'')], verify = None\<rparr>,
          \<lparr>inflate = InflateNames [''identity''], limit = Some (Num 20480),
           requireContentLength = False, encodings = Some EncodingsTrue,
           defaultEncoding = Some ''utf-8'', emptyResponse = Some (JString []),
           parser = None,
           matcher = [Template (Some ''text'', Some ''plain'')], verify = None\<rparr>,
          \<lparr>inflate = InflateNames [''identity''], limit = Some (Num 20480),
           requireContentLength = False, encodings = None,
           defaultEncoding = None, emptyResponse = Some (JBuffer []),
           parser = None,
           matcher = [Template (Some ''application'', Some ''octet-stream'')], verify = None\<rparr>]"
  using assms unfolding join_defaults by (simp add: getInflate_def convertLimit_def)

theorem C4_default_configurations_witness:
  "bytes table_externals ''20kb'' = Some 20480
   \<and> map_sum id (map (\<lambda>p. (matcher p, limit p, emptyResponse p)))
        (joinParserConfigurations table_externals None (LimitString ''20kb'')
           (InflateString ''identity'') builtinEncodingVariations False) =
       Inr [([Template (Some ''application'', Some ''x-www-form-urlencoded'')],
             Some (Num 20480), Some (JObject [])),
            ([Template (Some ''application'', Some ''json'')],
             Some (Num 20480), Some (JObject [])),
            ([Template (Some ''text'', Some ''plain'')],
             Some (Num 20480), Some (JString [])),
            ([Template (Some ''application'', Some ''octet-stream'')],
             Some (Num 20480), Some (JBuffer []))]"
proof -
  have b: "bytes table_externals ''20kb'' = Some 20480"
    by (simp add: table_externals_def)
  from C4_default_configurations [OF b, of builtinEncodingVariations] b
  show ?thesis by simp
qed

lemma default_parsers_table:
  "default_parsers table_externals =
     [\<lparr>inflate = InflateNames [''identity''], limit = Some (Num 20480),
           requireContentLength = False, encodings = Some EncodingsTrue,
           defaultEncoding = Some ''utf-8'', emptyResponse = Some (JObject []),
           parser = Some (querystringParser table_externals 1000),
           matcher = [Template (Some ''application'', Some ''x-www-form-urlencoded'')],
           verify = None\<rparr>,
          \<lparr>inflate = InflateNames [''identity''], limit = Some (Num 20480),
           requireContentLength = False, encodings = Some EncodingsTrue,
           defaultEncoding = Some ''utf-8'', emptyResponse = Some (JObject []),
           parser = Some (jsonParser table_externals),
           matcher = [Template (Some ''application'', Some ''json'')], verify = None\<rparr>,
          \<lparr>inflate = InflateNames [''identity''], limit = Some (Num 20480),
           requireContentLength = False, encodings = Some EncodingsTrue,
           defaultEncoding = Some ''utf-8'', emptyResponse = Some (JString []),
           parser = None,
           matcher = [Template (Some ''text'', Some ''plain'')], verify = None\<rparr>,
          \<lparr>inflate = InflateNames [''identity''], limit = Some (Num 20480),
           requireContentLength = False, encodings = None,
           defaultEncoding = None, emptyResponse = Some (JBuffer []),
           parser = None,
           matcher = [Template (Some ''application'', Some ''octet-stream'')], verify = None\<rparr>]"
  unfolding default_parsers_def join_defaults
  by (simp add: getInflate_def convertLimit_def table_externals_def)

lemma joinCustom_limit:
  "joinCustom X p lim infl ev rcl = Inr pp \<Longrightarrow>
   limit pp = (case cfg_limit p of Some l \<Rightarrow> convertLimit X l | None \<Rightarrow> lim)"
  by (auto simp: joinCustom_def split: sum.splits prod.splits)

lemma joinDefaultOverlay_limit:
  "joinDefaultOverlay X p name dp lim infl ev rcl = Inr pp \<Longrightarrow>
   limit pp = (case cfg_limit p of
                 None \<Rightarrow> lim
               | Some l \<Rightarrow> if limit_truthy l then convertLimit X l else lim)"
  by (auto simp: joinDefaultOverlay_def split: sum.splits prod.splits)

text \<open>
  C3, at the input where the code departs from it.  Two entries give the numeric limit
  0: the first overlays the default media type \<open>application/json\<close>, the second has the
  matcher \<open>application/xml\<close>.  The second keeps the limit of zero bytes; the first
  receives the default limit, because the overlay tests the limit for truthiness and
  zero is falsy.
\<close>

theorem C3_zero_limit_replaced_on_default_media_type:
  "map_sum id (map limit)
     (joinParserConfigurations X
        (Some (Multiple [Config (zero_limit_config ''application/json''),
                         Config (zero_limit_config ''application/xml'')]))
        defaultLimit infl ev rcl)
   = Inr [convertLimit X defaultLimit, Some (Num 0)]"
  by (simp add: join_defs zero_limit_config_def plain_config_def)










subsection \<open>The request dispatcher\<close>

lemmas dispatcher_defs = mediaTypeParser_def contentLength_of_def contentEncoding_of_def
  parsedMediaType_of_def mediaType_of_def allowedMediaTypeParsers_def encoding_of_def
  allowedCharsetParsers_def parseConfiguration_of_def matchAnyType_def matchType_def
  falsy_component_def at_def matchCharsetEncoding_def matchContentEncoding_def
  bodilessMethod_def truthy_def toLowerCase_def lower_char_def Let_def



lemma he_type_createError [simp]: "he_type (createError st msg ty details) = ty"
  by (simp add: createError_def)

lemma he_type_charsetUnsupported [simp]:
  "he_type (charsetUnsupported encoding names) = Some ''charset.unsupported''"
  by (simp add: charsetUnsupported_def split: option.split)


lemma foo_bar_unsupported:
  "mediaTypeParser table_externals (default_parsers table_externals) Map.empty [''identity'']
        utf8_encodings node_encoding_names False None None get_foo_bar_request
     = CallbackError (createError 415 ''Unsupported Media Type'' (Some ''mediaType.unsupported'')
         [(''mediaType'', JArray [JString ''foo'', JString ''bar''])])"
  unfolding default_parsers_table
  by (simp add: dispatcher_defs table_externals_def get_foo_bar_request_def)






subsection \<open>The streaming engine\<close>

lemmas engine_defs = run_def rawBodyParser_def decompressStream_def step_def onData_handler_def
  onEnd_handler_def onAborted_def cleanup_def finish_def flushDecoder_def parseBody_def
  exceeds_def doneWith_def bufferEncodingIsStreamDecoder_def Buffer_concat_def
  status_or_def type_or_def truthy_def opt_number_def createError_def new_Error_def
  Let_def

lemma doneWith_fields [simp]:
  "complete (doneWith cb s)" "received (doneWith cb s) = received s"
  "callbacks (doneWith cb s) = callbacks s @ [(if sync s then NextTick else Immediate, cb)]"
  "listening (doneWith cb s) = listening s" "sync (doneWith cb s) = sync s"
  by (simp_all add: doneWith_def)

lemma flushDecoder_fields [simp]:
  "complete (flushDecoder s) = complete s" "received (flushDecoder s) = received s"
  "callbacks (flushDecoder s) = callbacks s"
  "listening (flushDecoder s) = listening s" "sync (flushDecoder s) = sync s"
  by (simp_all add: flushDecoder_def split: option.split BufferEncoder.split prod.split)

lemma finish_fields [simp]:
  "complete (finish X a s)" "received (finish X a s) = received s"
  "listening (finish X a s) = listening s" "sync (finish X a s) = sync s"
  by (simp_all add: finish_def Let_def split: prod.split)

lemma finish_callbacks:
  "\<exists>cb. callbacks (finish X a s) = callbacks s @ [(if sync s then NextTick else Immediate, cb)]"
  by (simp add: finish_def Let_def split: prod.split)











lemma parseConfiguration_identity:
  "parseConfiguration_of ps ''identity'' names = None \<longleftrightarrow> ps = []"
  by (cases ps) (simp_all add: parseConfiguration_of_def matchContentEncoding_def)

lemma run_not_listening:
  "\<not> listening s \<Longrightarrow> foldl (step X a) s evs = s"
  by (induction evs) (simp_all add: step_def)

text \<open>
  C8 (as amended).  For a request whose content encoding is \<open>identity\<close>,
  \<open>matchContentEncoding\<close> is true whatever the inflate list and the names of the
  available decompressors are, so the dispatcher never reports an error of type
  \<open>encoding.unsupported\<close> for it.  When \<open>identity\<close> is not among the names of the
  available decompressors, the streaming engine rejects the request: the callback is
  called once, on the next tick, with a 415 error whose message starts with
  \<open>Decompression failed\<close> and whose type is \<open>unsupported.content.encoding\<close>, the type
  of the error that \<open>decompressStream\<close> throws.
\<close>

theorem C8_identity_encoding:
  "matchContentEncoding ''identity'' infl names
   \<and> (req_headers req = Some h \<and> contentEncoding_of h = ''identity'' \<longrightarrow>
        (\<forall>e. mediaTypeParser X parsers availableDecompressors availableDecompressorNames
               availableBufferEncodings availableBufferEncodingNames rcl
               defaultContentTypeEncoding defaultContentType req = CallbackError e
             \<longrightarrow> he_type e \<noteq> Some ''encoding.unsupported''))
   \<and> (arg_contentEncoding a = ''identity'' \<and> ''identity'' \<notin> set (arg_availableDecompressorNames a) \<longrightarrow>
        callbacks (run X a evs) =
          [(NextTick, Failure (createError 415
              ''Decompression failed: server does not allow uncompressed requests.''
              (Some ''unsupported.content.encoding'')
              [(''contentEncoding'', JString ''identity'')]))])"
proof (intro conjI impI allI)
  show "matchContentEncoding ''identity'' infl names"
    by (simp add: matchContentEncoding_def)
next
  fix e
  assume h: "req_headers req = Some h \<and> contentEncoding_of h = ''identity''"
    and r: "mediaTypeParser X parsers availableDecompressors availableDecompressorNames
               availableBufferEncodings availableBufferEncodingNames rcl
               defaultContentTypeEncoding defaultContentType req = CallbackError e"
  show "he_type e \<noteq> Some ''encoding.unsupported''"
    using r h
    by (auto simp: mediaTypeParser_def Let_def charsetUnsupported_def parseConfiguration_identity
        split: option.splits sum.splits if_splits)
next
  assume h: "arg_contentEncoding a = ''identity'' \<and> ''identity'' \<notin> set (arg_availableDecompressorNames a)"
  then have s0: "rawBodyParser a =
      \<lparr>complete = True, sync = True, received = 0, chunks = [], verifyBuffer = [],
       encoder = arg_bufferEncoding a, listening = False,
       callbacks = [(NextTick, Failure (createError 415
              ''Decompression failed: server does not allow uncompressed requests.''
              (Some ''unsupported.content.encoding'')
              [(''contentEncoding'', JString ''identity'')]))]\<rparr>"
    by (simp add: rawBodyParser_def decompressStream_def doneWith_def status_or_def type_or_def
        truthy_def)
  then have "\<not> listening (rawBodyParser a)" by simp
  from run_not_listening [OF this, of X a evs] s0
  show "callbacks (run X a evs) =
          [(NextTick, Failure (createError 415
              ''Decompression failed: server does not allow uncompressed requests.''
              (Some ''unsupported.content.encoding'')
              [(''contentEncoding'', JString ''identity'')]))]"
    by (simp add: run_def)
qed

theorem C8_identity_encoding_witness:
  "matchContentEncoding ''identity'' (InflateNames [''gzip'', ''deflate'']) [''deflate'', ''gzip'']
   \<and> req_headers get_foo_bar_request = Some [''content-type'' \<mapsto> ''foo/bar'']
   \<and> contentEncoding_of [''content-type'' \<mapsto> ''foo/bar''] = ''identity''
   \<and> he_type (createError 415 ''Unsupported Media Type'' (Some ''mediaType.unsupported'')
         [(''mediaType'', JArray [JString ''foo'', JString ''bar''])]) \<noteq> Some ''encoding.unsupported''
   \<and> arg_contentEncoding identity_request_args = ''identity''
   \<and> ''identity'' \<notin> set (arg_availableDecompressorNames identity_request_args)
   \<and> callbacks (run table_externals identity_request_args [Data ''abc'', End]) =
          [(NextTick, Failure (createError 415
              ''Decompression failed: server does not allow uncompressed requests.''
              (Some ''unsupported.content.encoding'')
              [(''contentEncoding'', JString ''identity'')]))]"
proof -
  have hdr: "req_headers get_foo_bar_request = Some [''content-type'' \<mapsto> ''foo/bar'']"
    by (simp add: get_foo_bar_request_def)
  have ce: "contentEncoding_of [''content-type'' \<mapsto> ''foo/bar''] = ''identity''"
    by (simp add: contentEncoding_of_def toLowerCase_def)
  have a: "arg_contentEncoding identity_request_args = ''identity''"
    "''identity'' \<notin> set (arg_availableDecompressorNames identity_request_args)"
    by (simp_all add: identity_request_args_def)
  note t = C8_identity_encoding [where infl = "InflateNames [''gzip'', ''deflate'']"
        and names = "[''deflate'', ''gzip'']" and req = get_foo_bar_request
        and h = "[''content-type'' \<mapsto> ''foo/bar'']" and X = table_externals
        and parsers = "default_parsers table_externals" and rcl = False
        and defaultContentType = None and defaultContentTypeEncoding = None
        and availableBufferEncodingNames = node_encoding_names
        and availableDecompressors = Map.empty and availableDecompressorNames = "[''identity'']"
        and availableBufferEncodings = utf8_encodings
        and a = identity_request_args and evs = "[Data ''abc'', End]"]
  from t have 1: "matchContentEncoding ''identity'' (InflateNames [''gzip'', ''deflate'']) [''deflate'', ''gzip'']"
    by blast
  from t hdr ce foo_bar_unsupported
  have 2: "he_type (createError 415 ''Unsupported Media Type'' (Some ''mediaType.unsupported'')
         [(''mediaType'', JArray [JString ''foo'', JString ''bar''])]) \<noteq> Some ''encoding.unsupported''"
    by blast
  from t a have 3: "callbacks (run table_externals identity_request_args [Data ''abc'', End]) =
          [(NextTick, Failure (createError 415
              ''Decompression failed: server does not allow uncompressed requests.''
              (Some ''unsupported.content.encoding'')
              [(''contentEncoding'', JString ''identity'')]))]"
    by blast
  from 1 2 3 hdr ce a show ?thesis by blast
qed

text \<open>
  The claim C8 as stated names the type \<open>decompression.failed\<close> for that error.  A
  server that inflates gzip and deflate only receives a POST request with the identity
  encoding: the dispatcher hands it to the engine, and the type of the error is
  \<open>unsupported.content.encoding\<close>.
\<close>

theorem C8_counterexample:
  "mediaTypeParser table_externals [gzip_deflate_parser] zlib_decompressors [''deflate'', ''gzip'']
       Map.empty [] False None None identity_request
     = CallRawBodyParser identity_request_args
   \<and> callbacks (run table_externals identity_request_args [Data ''abc'', End]) =
       [(NextTick, Failure (createError 415
           ''Decompression failed: server does not allow uncompressed requests.''
           (Some ''unsupported.content.encoding'')
           [(''contentEncoding'', JString ''identity'')]))]
   \<and> Some ''unsupported.content.encoding'' \<noteq> Some ''decompression.failed''"
proof -
  have d: "mediaTypeParser table_externals [gzip_deflate_parser] zlib_decompressors [''deflate'', ''gzip'']
       Map.empty [] False None None identity_request
     = CallRawBodyParser identity_request_args"
    by (simp add: dispatcher_defs table_externals_def identity_request_def
        identity_request_args_def gzip_deflate_parser_def)
  have e: "callbacks (run table_externals identity_request_args [Data ''abc'', End]) =
       [(NextTick, Failure (createError 415
           ''Decompression failed: server does not allow uncompressed requests.''
           (Some ''unsupported.content.encoding'')
           [(''contentEncoding'', JString ''identity'')]))]"
    by (simp add: engine_defs identity_request_args_def)
  from d e show ?thesis by simp
qed

subsection \<open>The JSON parser\<close>

lemma jsonParser_poison:
  "JSON_parse X payload = Inr poison_object \<Longrightarrow>
   jsonParser X payload = Inl (new_Error ''__proto__ key not allowed in JSON body on main level'')"
  by (simp add: jsonParser_def poison_object_def typeof_object_def isArray_def get_proto_def
      Object_keys_length_def)

lemma jsonParser_harmless:
  "JSON_parse X payload = Inr harmless_object \<Longrightarrow> jsonParser X payload = Inr harmless_object"
  by (simp add: jsonParser_def harmless_object_def typeof_object_def isArray_def get_proto_def
      Object_keys_length_def)

lemma parseBody_chunked:
  assumes "encoder s = Some (ChunkedBufferEncoder od oe rd names d)"
    and "parser (arg_parseConfiguration a) = Some f" "verify (arg_parseConfiguration a) = None"
  shows "parseBody X a s =
           (case f (rd (chunks s)) of
              Inl err \<Rightarrow> Failure (createError (status_or (status err) 400)
                                    (''Parse error: '' @ message err)
                                    (Some (type_or (etype err) ''entity.parse.failed''))
                                    [(''body'', rd (chunks s))])
            | Inr body \<Rightarrow> Success (Some body), False)"
  using assms by (simp add: parseBody_def Let_def split: option.split sum.split)

lemma run_one_chunk:
  fixes a :: "'d rawBodyParser_args"
  assumes cfg: "parser (arg_parseConfiguration a) = Some f" "verify (arg_parseConfiguration a) = None"
    and enc: "arg_bufferEncoding a = Some (ChunkedBufferEncoder od oe rd names d)"
    and dec: "od d chunk = (piece, d')" "oe d' = (final, d'')" "rd [piece, final] = JString decoded"
    and ident: "arg_contentEncoding a = ''identity''"
      "''identity'' \<in> set (arg_availableDecompressorNames a)"
    and len: "arg_contentLength a = None \<or> arg_contentLength a = Some (int (length chunk))"
    and lim: "\<not> exceeds (int (length chunk)) (arg_limit a)"
    and nonempty: "chunk \<noteq> []"
  shows "callbacks (run X a [Data chunk, End]) =
           [(Immediate,
             case f (JString decoded) of
               Inl err \<Rightarrow> Failure (createError (status_or (status err) 400)
                                     (''Parse error: '' @ message err)
                                     (Some (type_or (etype err) ''entity.parse.failed''))
                                     [(''body'', JString decoded)])
             | Inr body \<Rightarrow> Success (Some body))]"
proof -
  let ?s1 = "\<lparr>complete = False, sync = False, received = int (length chunk), chunks = [piece],
              verifyBuffer = [],
              encoder = Some (ChunkedBufferEncoder od oe rd names d'), listening = True,
              callbacks = []\<rparr>"
  let ?s2 = "?s1\<lparr>chunks := [piece, final], encoder := Some (ChunkedBufferEncoder od oe rd names d'')\<rparr>"
  have s1: "run X a [Data chunk] = ?s1"
    using cfg enc dec(1) ident lim
    by (simp add: run_def rawBodyParser_def decompressStream_def step_def onData_handler_def
        Let_def)
  have fl: "flushDecoder ?s1 = ?s2"
    using dec(2) by (simp add: flushDecoder_def)
  have pb: "parseBody X a ?s2 =
           (case f (JString decoded) of
              Inl err \<Rightarrow> Failure (createError (status_or (status err) 400)
                                    (''Parse error: '' @ message err)
                                    (Some (type_or (etype err) ''entity.parse.failed''))
                                    [(''body'', JString decoded)])
            | Inr body \<Rightarrow> Success (Some body), False)"
    using parseBody_chunked [of ?s2 od oe rd names d'' a f X] cfg dec(3)
    by (simp split: sum.split)
  have fin: "finish X a ?s1 =
           doneWith (case f (JString decoded) of
              Inl err \<Rightarrow> Failure (createError (status_or (status err) 400)
                                    (''Parse error: '' @ message err)
                                    (Some (type_or (etype err) ''entity.parse.failed''))
                                    [(''body'', JString decoded)])
            | Inr body \<Rightarrow> Success (Some body)) ?s2"
    using nonempty unfolding finish_def fl Let_def pb by simp
  have "run X a [Data chunk, End] = step X a (run X a [Data chunk]) End"
    by (simp add: run_def)
  also have "\<dots> = finish X a ?s1"
    unfolding s1 using len by (auto simp: step_def onEnd_handler_def)
  finally show ?thesis
    unfolding fin by (simp add: doneWith_def)
qed

text \<open>
  C7. The engine runs with the configuration that \<open>joinParserConfigurations\<close> builds for
  the default media type \<open>application/json\<close> and with a stream decoder that decodes the
  body to the given text.  When \<open>JSON.parse\<close> reads the first text as the object with
  the keys \<open>user\<close> and \<open>__proto__\<close>, the callback receives the 400 error of type
  \<open>entity.parse.failed\<close> whose message is \<open>Parse error:\<close> followed by
  \<open>__proto__ key not allowed in JSON body on main level\<close>.  When it reads the second
  text as the object with the keys \<open>user\<close> and \<open>other\<close>, the callback receives that
  object.
\<close>

theorem C7_proto_key_rejected:
  fixes a :: "'d rawBodyParser_args"
  assumes join: "joinParserConfigurations X (Some (Single (DefaultName ''application/json'')))
                   defaultLimit infl ev rcl = Inr [pc]"
    and cfg: "arg_parseConfiguration a = pc"
    and enc: "arg_bufferEncoding a = Some (ChunkedBufferEncoder od oe rd names d)"
    and dec: "od d chunk = (piece, d')" "oe d' = (final, d'')" "rd [piece, final] = JString decoded"
    and ident: "arg_contentEncoding a = ''identity''"
      "''identity'' \<in> set (arg_availableDecompressorNames a)"
    and len: "arg_contentLength a = None \<or> arg_contentLength a = Some (int (length chunk))"
    and lim: "\<not> exceeds (int (length chunk)) (arg_limit a)"
    and nonempty: "chunk \<noteq> []"
  shows "(decoded = poison_text \<and> JSON_parse X (JString poison_text) = Inr poison_object \<longrightarrow>
            callbacks (run X a [Data chunk, End]) =
              [(Immediate, Failure (createError 400
                  ''Parse error: __proto__ key not allowed in JSON body on main level''
                  (Some ''entity.parse.failed'')
                  [(''body'', JString poison_text)]))])
       \<and> (decoded = harmless_text \<and> JSON_parse X (JString harmless_text) = Inr harmless_object \<longrightarrow>
            callbacks (run X a [Data chunk, End]) = [(Immediate, Success (Some harmless_object))])"
proof -
  from join cfg have p: "parser (arg_parseConfiguration a) = Some (jsonParser X)"
    "verify (arg_parseConfiguration a) = None"
    by (auto simp: join_json)
  note r = run_one_chunk [OF p enc dec ident len lim nonempty, of X]
  show ?thesis
  proof (intro conjI impI)
    assume "decoded = poison_text \<and> JSON_parse X (JString poison_text) = Inr poison_object"
    with r jsonParser_poison [of X "JString poison_text"]
    show "callbacks (run X a [Data chunk, End]) =
              [(Immediate, Failure (createError 400
                  ''Parse error: __proto__ key not allowed in JSON body on main level''
                  (Some ''entity.parse.failed'')
                  [(''body'', JString poison_text)]))]"
      by (simp add: new_Error_def status_or_def type_or_def truthy_def)
  next
    assume "decoded = harmless_text \<and> JSON_parse X (JString harmless_text) = Inr harmless_object"
    with r jsonParser_harmless [of X "JString harmless_text"]
    show "callbacks (run X a [Data chunk, End]) = [(Immediate, Success (Some harmless_object))]"
      by simp
  qed
qed

theorem C7_proto_key_rejected_witness:
  "joinParserConfigurations table_externals (Some (Single (DefaultName ''application/json'')))
       (LimitString ''20kb'') (InflateString ''identity'') builtinEncodingVariations False
     = Inr [arg_parseConfiguration json_args]
   \<and> mediaTypeParser table_externals (default_parsers table_externals) Map.empty [''identity'']
        utf8_encodings node_encoding_names False None None post_json_request
       = CallRawBodyParser json_args
   \<and> JSON_parse table_externals (JString poison_text) = Inr poison_object
   \<and> callbacks (run table_externals json_args [Data poison_text, End]) =
              [(Immediate, Failure (createError 400
                  ''Parse error: __proto__ key not allowed in JSON body on main level''
                  (Some ''entity.parse.failed'')
                  [(''body'', JString poison_text)]))]
   \<and> JSON_parse table_externals (JString harmless_text) = Inr harmless_object
   \<and> callbacks (run table_externals json_args [Data harmless_text, End]) =
              [(Immediate, Success (Some harmless_object))]"
proof -
  have j: "joinParserConfigurations table_externals (Some (Single (DefaultName ''application/json'')))
       (LimitString ''20kb'') (InflateString ''identity'') builtinEncodingVariations False
     = Inr [arg_parseConfiguration json_args]"
    unfolding join_json
    by (simp add: json_args_def getInflate_def convertLimit_def table_externals_def)
  have d: "mediaTypeParser table_externals (default_parsers table_externals) Map.empty [''identity'']
        utf8_encodings node_encoding_names False None None post_json_request
       = CallRawBodyParser json_args"
    unfolding default_parsers_table
    by (simp add: dispatcher_defs table_externals_def post_json_request_def json_args_def
        node_encoding_names_def utf8_encodings_def)
  have enc: "arg_bufferEncoding json_args =
      Some (ChunkedBufferEncoder (\<lambda>d chunk. (JString chunk, d)) (\<lambda>d. (JString [], d))
        (\<lambda>pieces. JString (concat (map (\<lambda>v. case v of JString t \<Rightarrow> t | _ \<Rightarrow> []) pieces)))
        [''utf-8'', ''utf8''] ())"
    by (simp add: json_args_def ascii_decoder_def)
  have p1: "JSON_parse table_externals (JString poison_text) = Inr poison_object"
    by (simp add: table_externals_def)
  have p2: "JSON_parse table_externals (JString harmless_text) = Inr harmless_object"
    by (simp add: table_externals_def poison_text_def harmless_text_def)
  have ident: "arg_contentEncoding json_args = ''identity''"
    "''identity'' \<in> set (arg_availableDecompressorNames json_args)"
    "arg_contentLength json_args = None \<or> arg_contentLength json_args = Some (int (length (c::string)))" for c
    by (simp_all add: json_args_def)
  have lim: "\<not> exceeds (int (length poison_text)) (arg_limit json_args)"
    "\<not> exceeds (int (length harmless_text)) (arg_limit json_args)"
    "poison_text \<noteq> []" "harmless_text \<noteq> []"
    by (simp_all add: json_args_def exceeds_def poison_text_def harmless_text_def)
  note i1 = C7_proto_key_rejected [where X = table_externals and a = json_args
      and chunk = poison_text and decoded = poison_text and piece = "JString poison_text"
      and final = "JString []", OF j refl enc _ _ _ ident(1) ident(2) ident(3) lim(1) lim(3)]
  from i1 p1
  have r1: "callbacks (run table_externals json_args [Data poison_text, End]) =
              [(Immediate, Failure (createError 400
                  ''Parse error: __proto__ key not allowed in JSON body on main level''
                  (Some ''entity.parse.failed'')
                  [(''body'', JString poison_text)]))]"
    by simp
  note i2 = C7_proto_key_rejected [where X = table_externals and a = json_args
      and chunk = harmless_text and decoded = harmless_text and piece = "JString harmless_text"
      and final = "JString []", OF j refl enc _ _ _ ident(1) ident(2) ident(3) lim(2) lim(4)]
  from i2 p2
  have r2: "callbacks (run table_externals json_args [Data harmless_text, End]) =
              [(Immediate, Success (Some harmless_object))]"
    by simp
  from j d p1 p2 r1 r2 show ?thesis by blast
qed

end
